theory Spec2Isabelle
  imports Main "HOL-Library.Word"
begin

unbundle bit_operations_syntax

section \<open>Python values shared by the Thrift and JSON schemes\<close>

text \<open>
  An exception instance, of a class that derives from \<open>Exception\<close>: the names of its
  class and of the classes between it and \<open>Exception\<close>, and its message. Its method
  resolution order ends with \<open>Exception\<close>, \<open>BaseException\<close> and \<open>object\<close>, and
  \<open>isinstance\<close> is membership in that order. (What does not derive from \<open>Exception\<close>,
  such as \<open>KeyboardInterrupt\<close>, is caught by no \<open>except\<close> clause of the modelled code.)
\<close>

datatype pyexc = PyExc (exc_classes: "string list") (exc_args: string)

definition exc_mro :: "pyexc \<Rightarrow> string list" where
  "exc_mro e = exc_classes e @ [''Exception'', ''BaseException'', ''object'']"

definition isinstance :: "pyexc \<Rightarrow> string \<Rightarrow> bool" where
  "isinstance e cls = (cls \<in> set (exc_mro e))"

text \<open>
  Everything the modelled code can raise: an exception object raised by a collaborator
  (user handler, transport, serializer, thriftrw) or carried by a response, and the
  exceptions the source raises itself.
\<close>

datatype error =
    Raised pyexc
  | AssertionError string
  | AttributeError string
  | OneWayNotSupportedError string
  | ValueError string
  | ValueExpectedError string
  | TypeError string

text \<open>Truthiness of an optional string: \<open>None\<close> and the empty string are falsy.\<close>

fun truthy :: "string option \<Rightarrow> bool" where
  "truthy None = False"
| "truthy (Some s) = (s \<noteq> [])"

text \<open>\<open>str.endswith\<close>.\<close>

definition endswith :: "string \<Rightarrow> string \<Rightarrow> bool" where
  "endswith s suf = (length suf \<le> length s \<and> drop (length s - length suf) s = suf)"

section \<open>The Thrift interface description, as thriftrw hands it to \<open>tchannel/thrift/rw.py\<close>\<close>

text \<open>
  Only the attributes that \<open>rw.py\<close> reads are kept. A field spec of a response union names
  the field and the exception class of its type (\<open>exc_spec.spec.surface\<close>); the response
  spec lists the exception fields in declaration order and has a \<open>return_spec\<close> that is
  \<open>None\<close> for a void function.
\<close>

record field_spec =
  fs_name :: string
  fs_surface :: string

record union_spec =
  exception_specs :: "field_spec list"
  return_spec :: "string option"

record thrift_class =
  cls_name :: string
  type_spec :: union_spec

record service_function =
  sf_name :: string
  sf_request :: thrift_class
  sf_response :: thrift_class

record function_spec =
  fn_name :: string
  fn_oneway :: bool
  fn_surface :: service_function

record service_spec =
  ss_name :: string
  ss_functions :: "function_spec list"

record service_class =
  cls_service_spec :: service_spec

record thriftrw_module =
  services :: "service_class list"

section \<open>The objects of \<open>rw.py\<close>: \<open>TChannelThriftModule\<close> and \<open>Service\<close>\<close>

text \<open>
  Both constructors set their own attributes and then, in a loop, one attribute per
  service or function under the name the Thrift file gives it. \<open>setattr\<close> stores the
  value in the instance, unless the class has a data descriptor of that name, which
  decides: the property \<open>name\<close> of \<open>Service\<close> has no setter and raises \<open>AttributeError\<close>.
  A constructor therefore ends in one of three ways: it raises; it returns the object
  with the attributes it set first still in place (\<open>Built\<close>); or it returns an object in
  which the loop has replaced one of those attributes, the first such name being given
  (\<open>Shadowed\<close>). A shadowed object is not a value of the records below, which keep the
  attributes set first, and no property is stated of it.
\<close>

datatype 'a constructed = Raises error | Built 'a | Shadowed string

text \<open>
  The descriptors that every class deriving from \<open>object\<close> has: a \<open>Function\<close> is not a
  class and not a dictionary, so \<open>__class__\<close> and \<open>__dict__\<close> raise \<open>TypeError\<close>, and
  \<open>__weakref__\<close> is not writable.
\<close>

definition object_refuses :: "string \<Rightarrow> error option" where
  "object_refuses attr_name =
     (if attr_name = ''__class__'' \<or> attr_name = ''__dict__'' then Some (TypeError attr_name)
      else if attr_name = ''__weakref__'' then Some (AttributeError attr_name)
      else None)"

text \<open>
  \<open>TChannelThriftModule\<close>: \<open>service\<close>, \<open>module\<close> and \<open>hostport\<close>, and the attributes set by the
  loop of \<open>__init__\<close>, in the order they were set: the name of each service with the
  service class that \<open>Service(service_cls, self)\<close> wraps.
\<close>

record TChannelThriftModule =
  tm_service :: "string option"
  tm_module :: thriftrw_module
  tm_hostport :: "string option"
  tm_services :: "(string \<times> service_class) list"

record Service =
  svc_module :: TChannelThriftModule
  svc_cls :: service_class
  svc_spec :: service_spec

text \<open>
  The loop of \<open>Service.__init__\<close>, \<open>setattr(self, func_spec.name, Function(func_spec, self))\<close>
  for each function spec: it stops at the first name that cannot be set, and otherwise
  tells the first of \<open>_module\<close>, \<open>_cls\<close> and \<open>_spec\<close> that a function has replaced, if any.
\<close>

fun set_functions :: "function_spec list \<Rightarrow> string option \<Rightarrow> error + string option" where
  "set_functions [] shadowed = Inr shadowed"
| "set_functions (func_spec # rest) shadowed =
     (if fn_name func_spec = ''name'' then Inl (AttributeError ''name'')
      else case object_refuses (fn_name func_spec) of
             Some e \<Rightarrow> Inl e
           | None \<Rightarrow>
               set_functions rest
                 (if shadowed = None \<and> fn_name func_spec \<in> set [''_module'', ''_cls'', ''_spec'']
                  then Some (fn_name func_spec) else shadowed))"

definition Service_init :: "service_class \<Rightarrow> TChannelThriftModule \<Rightarrow> Service constructed" where
  "Service_init cls module =
     (case set_functions (ss_functions (cls_service_spec cls)) None of
        Inl e \<Rightarrow> Raises e
      | Inr (Some shadowed) \<Rightarrow> Shadowed shadowed
      | Inr None \<Rightarrow>
          Built \<lparr>svc_module = module, svc_cls = cls, svc_spec = cls_service_spec cls\<rparr>)"

text \<open>
  The loop of \<open>TChannelThriftModule.__init__\<close>: for each service class of the module,
  \<open>Service(service_cls, self)\<close>, which may raise, and then \<open>setattr(self, name, ...)\<close> under the
  name of the service. The base class \<open>types.ModuleType\<close> is the interpreter's, and which
  names it refuses to set differs between versions of Python, so that is a parameter
  \<open>module_refuses\<close>. A service called \<open>service\<close>, \<open>module\<close> or \<open>hostport\<close> replaces that
  attribute.
\<close>

fun set_services ::
  "(string \<Rightarrow> error option) \<Rightarrow> TChannelThriftModule \<Rightarrow> service_class list \<Rightarrow>
   (string \<times> service_class) list \<Rightarrow> string option \<Rightarrow>
   error + (string \<times> service_class) list \<times> string option" where
  "set_services module_refuses self [] attrs shadowed = Inr (attrs, shadowed)"
| "set_services module_refuses self (service_cls # rest) attrs shadowed =
     (case Service_init service_cls self of
        Raises e \<Rightarrow> Inl e
      | _ \<Rightarrow>
          (case module_refuses (ss_name (cls_service_spec service_cls)) of
             Some e \<Rightarrow> Inl e
           | None \<Rightarrow>
               set_services module_refuses self rest
                 (attrs @ [(ss_name (cls_service_spec service_cls), service_cls)])
                 (if shadowed = None \<and>
                     ss_name (cls_service_spec service_cls) \<in> set [''service'', ''module'', ''hostport'']
                  then Some (ss_name (cls_service_spec service_cls)) else shadowed)))"

definition TChannelThriftModule_init ::
  "(string \<Rightarrow> error option) \<Rightarrow> string option \<Rightarrow> thriftrw_module \<Rightarrow> string option \<Rightarrow>
   TChannelThriftModule constructed" where
  "TChannelThriftModule_init module_refuses service module hostport =
     (let self = \<lparr>tm_service = service, tm_module = module, tm_hostport = hostport,
                  tm_services = []\<rparr>
      in case set_services module_refuses self (services module) [] None of
           Inl e \<Rightarrow> Raises e
         | Inr (attrs, Some shadowed) \<Rightarrow> Shadowed shadowed
         | Inr (attrs, None) \<Rightarrow> Built (self\<lparr>tm_services := attrs\<rparr>))"

section \<open>\<open>load\<close>\<close>

text \<open>
  \<open>load(path, service=None, hostport=None, module_name=None)\<close>. The compiler
  \<open>thriftrw.load(path=..., name=...)\<close> belongs to another package and is a parameter: it
  receives the path and the module name and returns the compiled module or raises.
  \<open>path\<close> is a string (the source calls \<open>path.endswith\<close>); \<open>service\<close> may be \<open>None\<close>, so
  after the swap the path handed to the compiler may be \<open>None\<close>.
\<close>

definition load ::
  "(string option \<Rightarrow> string option \<Rightarrow> pyexc + thriftrw_module) \<Rightarrow> (string \<Rightarrow> error option) \<Rightarrow>
   string \<Rightarrow> string option \<Rightarrow> string option \<Rightarrow> string option \<Rightarrow>
   TChannelThriftModule constructed" where
  "load thriftrw_load module_refuses path service hostport module_name =
     (let (service', path') =
            (if \<not> endswith path ''.thrift'' then (Some path, service)
             else (service, Some path))
      in case thriftrw_load path' module_name of
           Inl e \<Rightarrow> Raises (Raised e)
         | Inr module \<Rightarrow> TChannelThriftModule_init module_refuses service' module hostport)"

section \<open>\<open>Service\<close> and \<open>Function\<close>\<close>

text \<open>The property \<open>Service.name\<close>.\<close>

definition service_name :: "Service \<Rightarrow> string" where
  "service_name s = ss_name (svc_spec s)"

record Function =
  f_spec :: function_spec
  f_func :: service_function
  f_service :: Service
  f_request_cls :: thrift_class
  f_response_cls :: thrift_class

definition Function_init :: "function_spec \<Rightarrow> Service \<Rightarrow> Function" where
  "Function_init func_spec service =
     \<lparr>f_spec = func_spec, f_func = fn_surface func_spec, f_service = service,
      f_request_cls = sf_request (fn_surface func_spec),
      f_response_cls = sf_response (fn_surface func_spec)\<rparr>"

text \<open>\<open>'%s::%s' % (self.service.name, self.func.name)\<close>\<close>

definition Function_endpoint :: "Function \<Rightarrow> string" where
  "Function_endpoint f = service_name (f_service f) @ ''::'' @ sf_name (f_func f)"

definition Function_oneway :: "Function \<Rightarrow> bool" where
  "Function_oneway f = fn_oneway (f_spec f)"

text \<open>
  \<open>getattr(service, method, None)\<close> on a \<open>Service\<close> that was built. \<open>Service.__init__\<close> has set
  one attribute per function spec, named by the spec and holding
  \<open>Function(func_spec, self)\<close>; a later spec of the same name overwrites an earlier one.
  The property \<open>name\<close> is a data descriptor of the class and is found before any instance
  attribute. The other attributes of the object (\<open>_module\<close>, \<open>_cls\<close>, \<open>_spec\<close> and the
  methods of the class) are objects that are true and are not a \<open>Function\<close>.
\<close>

datatype attr = AttrFunction Function | AttrOther bool

definition service_getattr :: "Service \<Rightarrow> string \<Rightarrow> attr option" where
  "service_getattr service method =
     (if method = ''name'' then Some (AttrOther (service_name service \<noteq> []))
      else case find (\<lambda>fs. fn_name fs = method) (rev (ss_functions (svc_spec service))) of
             Some func_spec \<Rightarrow> Some (AttrFunction (Function_init func_spec service))
           | None \<Rightarrow>
               if method \<in> set [''_module'', ''_cls'', ''_spec'', ''__init__'', ''__str__'', ''__repr__'']
               then Some (AttrOther True) else None)"

section \<open>Responses and the response union\<close>

text \<open>
  Modelled from the spec: \<open>tchannel.response.Response\<close> and the status constants of
  \<open>tchannel.status\<close> are not among the sources. The spec gives a response as
  (code, headers, body) with code ok = 0x00 and error = 0x01; \<open>Response()\<close> is a response
  with no headers and no body.
\<close>

record ('h, 'b) Response =
  resp_status :: "8 word"
  resp_headers :: 'h
  resp_body :: 'b

definition OK :: "8 word" where
  "OK = 0x00"

definition FAILED :: "8 word" where
  "FAILED = 0x01"

definition Response_new :: "('h option, 'b option) Response" where
  "Response_new = \<lparr>resp_status = OK, resp_headers = None, resp_body = None\<rparr>"

text \<open>
  An instance of a function's response class: one attribute per declared exception, all
  \<open>None\<close> unless given, and \<open>success\<close>. \<open>response_cls(**response_kwargs)\<close> starts from no
  attribute set and stores each keyword.
\<close>

record 'v result_union =
  result_cls :: thrift_class
  exc_field :: "string \<rightharpoonup> pyexc"
  success :: "'v option"

definition response_cls_new :: "thrift_class \<Rightarrow> 'v result_union" where
  "response_cls_new cls = \<lparr>result_cls = cls, exc_field = Map.empty, success = None\<rparr>"

section \<open>\<open>build_handler\<close>\<close>

text \<open>
  A user handler has a \<open>__name__\<close> and, called on a request, raises or returns something
  that \<open>response_from_mixed\<close> turns into a response. \<open>response_from_mixed\<close> lives in
  \<open>tchannel.response\<close>, which is not among the sources, and is a parameter. The wrapped
  handler returns a response whose body is the response union.
\<close>

record ('r, 'm) handler =
  h_name :: string
  h_call :: "'r \<Rightarrow> pyexc + 'm"

record ('r, 'h, 'v) wrapped_handler =
  w_name :: string
  w_call :: "'r \<Rightarrow> error + ('h option, 'v result_union) Response"

text \<open>
  The \<open>for exc_spec in response_spec.exception_specs\<close> loop of \<open>handle\<close>: the first spec
  whose class the exception is an instance of ends the loop (\<open>break\<close>); \<open>None\<close> is the
  \<open>else\<close> branch of the loop.
\<close>

fun match_exception :: "pyexc \<Rightarrow> field_spec list \<Rightarrow> field_spec option" where
  "match_exception e [] = None"
| "match_exception e (exc_spec # rest) =
     (if isinstance e (fs_surface exc_spec) then Some exc_spec
      else match_exception e rest)"

definition value_expected_message :: "string \<Rightarrow> string" where
  "value_expected_message ep =
     ''Expected a value to be returned for '' @ ep @
     '', but recieved None - only void procedures can return None.''"

definition handle ::
  "('m \<Rightarrow> ('h option, 'v option) Response) \<Rightarrow> Function \<Rightarrow> ('r, 'm) handler \<Rightarrow> 'r \<Rightarrow>
   error + ('h option, 'v result_union) Response" where
  "handle response_from_mixed function handler request =
     (let response_cls = f_response_cls function;
          response_spec = type_spec response_cls
      in case h_call handler request of
           Inl e \<Rightarrow>
             if isinstance e ''Exception'' then
               (case match_exception e (exception_specs response_spec) of
                  Some exc_spec \<Rightarrow>
                    Inr \<lparr>resp_status = FAILED,
                         resp_headers = resp_headers (Response_new :: ('h option, 'v option) Response),
                         resp_body = (response_cls_new response_cls)
                                  \<lparr>exc_field := [fs_name exc_spec \<mapsto> e]\<rparr>\<rparr>
                | None \<Rightarrow> Inl (Raised e))
             else Inl (Raised e)
         | Inr mixed \<Rightarrow>
             (let response = response_from_mixed mixed in
              if return_spec response_spec \<noteq> None then
                (case resp_body response of
                   None \<Rightarrow> Inl (AssertionError (value_expected_message (Function_endpoint function)))
                 | Some v \<Rightarrow>
                     Inr \<lparr>resp_status = OK, resp_headers = resp_headers response,
                          resp_body = (response_cls_new response_cls)\<lparr>success := Some v\<rparr>\<rparr>)
              else
                Inr \<lparr>resp_status = OK, resp_headers = resp_headers response,
                     resp_body = response_cls_new response_cls\<rparr>))"

definition build_handler ::
  "('m \<Rightarrow> ('h option, 'v option) Response) \<Rightarrow> Function \<Rightarrow> ('r, 'm) handler \<Rightarrow>
   ('r, 'h, 'v) wrapped_handler" where
  "build_handler response_from_mixed function handler =
     \<lparr>w_name = fn_name (f_spec function),
      w_call = handle response_from_mixed function handler\<rparr>"

section \<open>\<open>ThriftRWRequest\<close> and \<open>Function.__call__\<close>\<close>

record ThriftRWSerializer =
  ser_module :: TChannelThriftModule
  ser_cls :: thrift_class

definition ThriftRWSerializer_init :: "TChannelThriftModule \<Rightarrow> thrift_class \<Rightarrow> ThriftRWSerializer" where
  "ThriftRWSerializer_init module cls = \<lparr>ser_module = module, ser_cls = cls\<rparr>"

record 'a ThriftRWRequest =
  rq_service :: "string option"
  rq_endpoint :: string
  rq_result_type :: thrift_class
  rq_call_args :: 'a
  rq_hostport :: "string option"
  rq_serializer :: ThriftRWSerializer

definition ThriftRWRequest_init ::
  "TChannelThriftModule \<Rightarrow> string option \<Rightarrow> string \<Rightarrow> thrift_class \<Rightarrow> 'a \<Rightarrow> string option \<Rightarrow>
   'a ThriftRWRequest" where
  "ThriftRWRequest_init module service ep result_type call_args hostport =
     \<lparr>rq_service = service, rq_endpoint = ep, rq_result_type = result_type,
      rq_call_args = call_args, rq_hostport = hostport,
      rq_serializer = ThriftRWSerializer_init module result_type\<rparr>"

text \<open>
  \<open>Function.__call__(*args, **kwargs)\<close>. The constructor of the request class,
  \<open>self.request_cls(*args, **kwargs)\<close>, is thriftrw's and is a parameter that may raise.
\<close>

definition Function_call ::
  "(thrift_class \<Rightarrow> 'args \<Rightarrow> pyexc + 'a) \<Rightarrow> Function \<Rightarrow> 'args \<Rightarrow> error + 'a ThriftRWRequest" where
  "Function_call request_cls_new function args =
     (if Function_oneway function then
        Inl (OneWayNotSupportedError
               ''TChannel+Thrift does not currently support oneway procedures.'')
      else if \<not> (truthy (tm_hostport (svc_module (f_service function))) \<or>
                  truthy (tm_service (svc_module (f_service function)))) then
        Inl (ValueError (''No 'service' or 'hostport' provided to '' @
                         ''Function('' @ Function_endpoint function @ '')''))
      else
        (let module = svc_module (f_service function) in
         case request_cls_new (f_request_cls function) args of
           Inl e \<Rightarrow> Inl (Raised e)
         | Inr call_args \<Rightarrow>
             Inr (ThriftRWRequest_init module (tm_service module) (Function_endpoint function)
                    (f_response_cls function) call_args (tm_hostport module))))"

text \<open>
  \<open>ThriftRWRequest.read_body\<close>. The loop raises the value of the first exception
  attribute of the body that is not \<open>None\<close>.
\<close>

fun first_exception :: "'v result_union \<Rightarrow> field_spec list \<Rightarrow> pyexc option" where
  "first_exception body [] = None"
| "first_exception body (exc_spec # rest) =
     (case exc_field body (fs_name exc_spec) of
        Some exc \<Rightarrow> Some exc
      | None \<Rightarrow> first_exception body rest)"

definition read_body :: "'a ThriftRWRequest \<Rightarrow> 'v result_union \<Rightarrow> error + 'v option" where
  "read_body self body =
     (let response_spec = type_spec (rq_result_type self)
      in case first_exception body (exception_specs response_spec) of
           Some exc \<Rightarrow> Inl (Raised exc)
         | None \<Rightarrow>
             if return_spec response_spec \<noteq> None then
               (case success body of
                  None \<Rightarrow> Inl (ValueExpectedError (value_expected_message (rq_endpoint self)))
                | Some v \<Rightarrow> Inr (Some v))
             else Inr None)"

section \<open>\<open>register\<close>\<close>

text \<open>
  Modelled from the spec: the \<open>RequestDispatcher\<close> is not among the sources. The spec has it
  hold a mapping from arg1 (the endpoint name) to (handler, request-scheme,
  response-scheme); \<open>dispatcher.register(endpoint, handler, req, res)\<close> stores that entry.
\<close>

type_synonym ('r, 'h, 'v) dispatcher =
  "string \<rightharpoonup> (('r, 'h, 'v) wrapped_handler \<times> ThriftRWSerializer \<times> ThriftRWSerializer)"

definition dispatcher_register ::
  "('r, 'h, 'v) dispatcher \<Rightarrow> string \<Rightarrow> ('r, 'h, 'v) wrapped_handler \<Rightarrow>
   ThriftRWSerializer \<Rightarrow> ThriftRWSerializer \<Rightarrow> ('r, 'h, 'v) dispatcher" where
  "dispatcher_register dispatcher ep handler req_serializer res_serializer =
     dispatcher(ep \<mapsto> (handler, req_serializer, res_serializer))"

text \<open>\<open>if not method: method = handler.__name__\<close>\<close>

definition method_name :: "string option \<Rightarrow> ('r, 'm) handler \<Rightarrow> string" where
  "method_name method handler = (if \<not> truthy method then h_name handler else the method)"

text \<open>
  The inner function \<open>decorator(method, handler)\<close>: it returns the wrapped handler or
  raises, and the dispatcher as it is afterwards. An \<open>assert\<close> that fails raises
  \<open>AssertionError\<close>; reading \<open>.oneway\<close> of an attribute that is not a \<open>Function\<close> raises
  \<open>AttributeError\<close>.
\<close>

definition decorator ::
  "('m \<Rightarrow> ('h option, 'v option) Response) \<Rightarrow> ('r, 'h, 'v) dispatcher \<Rightarrow> Service \<Rightarrow>
   string option \<Rightarrow> ('r, 'm) handler \<Rightarrow>
   (error + ('r, 'h, 'v) wrapped_handler) \<times> ('r, 'h, 'v) dispatcher" where
  "decorator response_from_mixed dispatcher service method handler =
     (let method' = method_name method handler;
          not_defined = ''Service \"'' @ service_name service @
                        ''\" does not define method \"'' @ method' @ ''\"''
      in case service_getattr service method' of
           None \<Rightarrow> (Inl (AssertionError not_defined), dispatcher)
         | Some (AttrOther is_true) \<Rightarrow>
             if \<not> is_true then (Inl (AssertionError not_defined), dispatcher)
             else (Inl (AttributeError ''oneway''), dispatcher)
         | Some (AttrFunction function) \<Rightarrow>
             if Function_oneway function then (Inl (AssertionError []), dispatcher)
             else
               (let handler' = build_handler response_from_mixed function handler
                in (Inr handler',
                    dispatcher_register dispatcher (Function_endpoint function) handler'
                      (ThriftRWSerializer_init (svc_module service) (f_request_cls function))
                      (ThriftRWSerializer_init (svc_module service) (f_response_cls function)))))"

text \<open>
  \<open>register(dispatcher, service, handler=None, method=None)\<close>: without a handler it returns
  \<open>partial(decorator, method)\<close>, which registers once it is given the handler; with one
  it registers at once.
\<close>

datatype ('r, 'm, 'h, 'v) registration =
    Deferred "('r, 'm) handler \<Rightarrow> ('r, 'h, 'v) dispatcher \<Rightarrow>
              (error + ('r, 'h, 'v) wrapped_handler) \<times> ('r, 'h, 'v) dispatcher"
  | Registered "(error + ('r, 'h, 'v) wrapped_handler) \<times> ('r, 'h, 'v) dispatcher"

definition register ::
  "('m \<Rightarrow> ('h option, 'v option) Response) \<Rightarrow> ('r, 'h, 'v) dispatcher \<Rightarrow> Service \<Rightarrow>
   ('r, 'm) handler option \<Rightarrow> string option \<Rightarrow> ('r, 'm, 'h, 'v) registration" where
  "register response_from_mixed dispatcher service handler method =
     (case handler of
        None \<Rightarrow> Deferred (\<lambda>h d. decorator response_from_mixed d service method h)
      | Some h \<Rightarrow> Registered (decorator response_from_mixed dispatcher service method h))"

section \<open>The JSON scheme, \<open>tchannel/schemes/json.py\<close>\<close>

text \<open>
  Modelled from the spec: the constant \<open>JSON\<close> of \<open>tchannel.schemes\<close> is not among the
  sources; the spec names the built-in schemes \<open>raw\<close>, \<open>json\<close> and \<open>thrift\<close>.
\<close>

definition JSON :: string where
  "JSON = ''json''"

text \<open>
  \<open>JsonSerializer\<close> (\<open>tchannel/serializer/json.py\<close>) is not among the sources either. The
  scheme code only calls its four methods, so a serializer is a parameter: four functions
  between objects \<open>'o\<close> and wire values \<open>'w\<close>, each of which may raise.
\<close>

record ('o, 'w) JsonSerializer =
  serialize_header :: "'o \<Rightarrow> pyexc + 'w"
  serialize_body :: "'o \<Rightarrow> pyexc + 'w"
  deserialize_header :: "'w \<Rightarrow> pyexc + 'o"
  deserialize_body :: "'w \<Rightarrow> pyexc + 'o"

text \<open>The keyword arguments of \<open>self._tchannel.call(...)\<close>.\<close>

record 'w call_request =
  cr_scheme :: string
  cr_service :: string
  cr_arg1 :: string
  cr_arg2 :: 'w
  cr_arg3 :: 'w
  cr_timeout :: "int option"
  cr_retry_on :: "string option"
  cr_retry_limit :: "int option"
  cr_hostport :: "string option"
  cr_shard_key :: "string option"
  cr_trace :: "bool option"

text \<open>
  \<open>JsonArgScheme.__call__\<close>. The transport \<open>self._tchannel.call\<close> is a parameter that acts
  on the state \<open>'s\<close> of the \<open>TChannel\<close> object: from a state and the call's arguments it
  gives a response or an exception, and the next state.
\<close>

definition JsonArgScheme_call ::
  "('o, 'w) JsonSerializer \<Rightarrow>
   ('s \<Rightarrow> 'w call_request \<Rightarrow> (pyexc + ('w, 'w) Response) \<times> 's) \<Rightarrow> 's \<Rightarrow>
   string \<Rightarrow> string \<Rightarrow> 'o \<Rightarrow> 'o \<Rightarrow>
   int option \<Rightarrow> string option \<Rightarrow> int option \<Rightarrow> string option \<Rightarrow> string option \<Rightarrow>
   bool option \<Rightarrow> (error + ('o, 'o) Response) \<times> 's" where
  "JsonArgScheme_call serializer tchannel_call tchannel service endpoint body headers
       timeout retry_on retry_limit hostport shard_key trace =
     (case serialize_header serializer headers of
        Inl e \<Rightarrow> (Inl (Raised e), tchannel)
      | Inr headers' \<Rightarrow>
     (case serialize_body serializer body of
        Inl e \<Rightarrow> (Inl (Raised e), tchannel)
      | Inr body' \<Rightarrow>
     (case tchannel_call tchannel
             \<lparr>cr_scheme = JSON, cr_service = service, cr_arg1 = endpoint,
              cr_arg2 = headers', cr_arg3 = body', cr_timeout = timeout,
              cr_retry_on = retry_on, cr_retry_limit = retry_limit,
              cr_hostport = hostport, cr_shard_key = shard_key, cr_trace = trace\<rparr> of
        (Inl e, tchannel') \<Rightarrow> (Inl (Raised e), tchannel')
      | (Inr response, tchannel') \<Rightarrow>
     (case deserialize_header serializer (resp_headers response) of
        Inl e \<Rightarrow> (Inl (Raised e), tchannel')
      | Inr headers'' \<Rightarrow>
     (case deserialize_body serializer (resp_body response) of
        Inl e \<Rightarrow> (Inl (Raised e), tchannel')
      | Inr body'' \<Rightarrow>
          (Inr \<lparr>resp_status = resp_status response, resp_headers = headers'',
                resp_body = body''\<rparr>, tchannel'))))))"


text \<open>
  \<open>JsonArgScheme.register(endpoint, **kwargs)\<close>. The argument is a callable or something
  else; \<open>kwargs\<close> are the further keyword arguments of the invocation, by name. Python
  refuses a call that gives a parameter twice. A keyword called \<open>self\<close> or \<open>endpoint\<close> gives
  a parameter of \<open>register\<close> itself a second time, so the invocation raises \<open>TypeError\<close>
  before the body runs; the inner call names \<open>scheme\<close>, \<open>endpoint\<close> and \<open>handler\<close> itself, so
  a keyword called \<open>scheme\<close> or \<open>handler\<close> raises \<open>TypeError\<close> there. In both cases
  \<open>self._tchannel.register\<close> is not entered.
\<close>

datatype ('f, 'e) endpoint_arg = Callable 'f | NotCallable 'e

record ('f, 'e, 'k) register_request =
  rr_scheme :: string
  rr_endpoint :: "'e option"
  rr_handler :: "'f option"
  rr_kwargs :: "(string \<times> 'k) list"

definition JsonArgScheme_register ::
  "('s \<Rightarrow> ('f, 'e, 'k) register_request \<Rightarrow> (pyexc + 'a) \<times> 's) \<Rightarrow> 's \<Rightarrow>
   ('f, 'e) endpoint_arg \<Rightarrow> (string \<times> 'k) list \<Rightarrow> (error + 'a) \<times> 's" where
  "JsonArgScheme_register tchannel_register tchannel endpoint kwargs =
     (let (handler, endpoint') =
            (case endpoint of
               Callable f \<Rightarrow> (Some f, None)
             | NotCallable e \<Rightarrow> (None, Some e))
      in case find (\<lambda>k. k \<in> set [''self'', ''endpoint'', ''scheme'', ''handler''])
                (map fst kwargs) of
           Some k \<Rightarrow>
             (Inl (TypeError (''register() got multiple values for keyword argument '' @ k)),
              tchannel)
         | None \<Rightarrow>
             (case tchannel_register tchannel
                     \<lparr>rr_scheme = JSON, rr_endpoint = endpoint', rr_handler = handler,
                      rr_kwargs = kwargs\<rparr> of
                (Inl e, tchannel') \<Rightarrow> (Inl (Raised e), tchannel')
              | (Inr r, tchannel') \<Rightarrow> (Inr r, tchannel')))"

section \<open>The frame codec\<close>

text \<open>
  Modelled from the spec: no file of the frame codec is among the sources. The spec's
  frame is a fixed 16-byte header and a payload, at most 65535 bytes in all: \<open>size\<close> (u16,
  the total length with the header), \<open>type\<close> (u8), a reserved byte, \<open>id\<close> (u32) and eight
  reserved bytes. Integers are written in network byte order and reserved bytes as zero.
  The payload type carries the invariant \<open>size \<le> 65535\<close> as a bound of 65519 bytes.
\<close>

type_synonym byte = "8 word"

datatype frame_type =
    InitReq | InitRes | CallReq | CallRes | CallReqContinue | CallResContinue
  | Cancel | Claim | PingReq | PingRes | ErrorFrame

fun type_code :: "frame_type \<Rightarrow> byte" where
  "type_code InitReq = 0x01"
| "type_code InitRes = 0x02"
| "type_code CallReq = 0x03"
| "type_code CallRes = 0x04"
| "type_code CallReqContinue = 0x13"
| "type_code CallResContinue = 0x14"
| "type_code Cancel = 0xC0"
| "type_code Claim = 0xC1"
| "type_code PingReq = 0xD0"
| "type_code PingRes = 0xD1"
| "type_code ErrorFrame = 0xFF"

definition type_of_code :: "byte \<Rightarrow> frame_type option" where
  "type_of_code c =
     (if c = 0x01 then Some InitReq else if c = 0x02 then Some InitRes
      else if c = 0x03 then Some CallReq else if c = 0x04 then Some CallRes
      else if c = 0x13 then Some CallReqContinue else if c = 0x14 then Some CallResContinue
      else if c = 0xC0 then Some Cancel else if c = 0xC1 then Some Claim
      else if c = 0xD0 then Some PingReq else if c = 0xD1 then Some PingRes
      else if c = 0xFF then Some ErrorFrame else None)"

typedef payload = "{bs :: byte list. length bs \<le> 65519}"
  morphisms payload_bytes Payload
  by (rule exI [of _ "[]"]) simp

record frame =
  frame_type :: frame_type
  frame_id :: "32 word"
  frame_payload :: payload

definition frame_size :: "frame \<Rightarrow> nat" where
  "frame_size F = 16 + length (payload_bytes (frame_payload F))"

definition u16_bytes :: "nat \<Rightarrow> byte list" where
  "u16_bytes n = [of_nat (n div 256), of_nat n]"

definition u16_of :: "byte \<Rightarrow> byte \<Rightarrow> nat" where
  "u16_of b0 b1 = unat b0 * 256 + unat b1"

definition u32_bytes :: "32 word \<Rightarrow> byte list" where
  "u32_bytes w = [ucast (drop_bit 24 w), ucast (drop_bit 16 w), ucast (drop_bit 8 w), ucast w]"

definition u32_of :: "byte \<Rightarrow> byte \<Rightarrow> byte \<Rightarrow> byte \<Rightarrow> 32 word" where
  "u32_of b0 b1 b2 b3 =
     push_bit 24 (ucast b0) OR push_bit 16 (ucast b1) OR push_bit 8 (ucast b2) OR ucast b3"

text \<open>Writing: the header, with \<open>size\<close> set to the total length, then the payload.\<close>

definition encode :: "frame \<Rightarrow> byte list" where
  "encode F =
     u16_bytes (frame_size F) @ [type_code (frame_type F), 0] @ u32_bytes (frame_id F) @
     replicate 8 0 @ payload_bytes (frame_payload F)"

text \<open>
  Reading: a u16 length, then \<open>size - 2\<close> bytes, parsed as the rest of the header and the
  payload; what follows in the stream is returned with the frame. \<open>BadFrame\<close> if
  \<open>size < 16\<close> or the input is truncated, and for a type byte outside the enumeration.
\<close>

datatype protocol_error = BadFrame

definition decode :: "byte list \<Rightarrow> protocol_error + frame \<times> byte list" where
  "decode bs =
     (case bs of
        b0 # b1 # stream \<Rightarrow>
          (let size = u16_of b0 b1 in
           if size < 16 then Inl BadFrame
           else if length stream < size - 2 then Inl BadFrame
           else
             (let rest = take (size - 2) stream in
              case type_of_code (rest ! 0) of
                None \<Rightarrow> Inl BadFrame
              | Some t \<Rightarrow>
                  Inr (\<lparr>frame_type = t,
                        frame_id = u32_of (rest ! 2) (rest ! 3) (rest ! 4) (rest ! 5),
                        frame_payload = Payload (drop 14 rest)\<rparr>,
                       drop (size - 2) stream)))
      | _ \<Rightarrow> Inl BadFrame)"

section \<open>Well-formed services\<close>


section \<open>Example: the key-value service of \<open>examples/benchmark/thrift/server.py\<close>\<close>

text \<open>
  The service \<open>KeyValue\<close> with \<open>getValue\<close>, which may raise \<open>NotFoundError\<close>, and the void
  \<open>setValue\<close>, as the benchmark server registers them; the oneway function \<open>notify\<close> is
  added to have one, and the module and the service are the objects that the constructors
  build for it. The interface file of the service is not among the sources, and the
  exception field is taken to be called \<open>notFound\<close>. A request is its key. The handlers
  are those of the server over \<open>values = {'hello': 'world'}\<close>: \<open>getValue\<close> returns the
  value of the key or raises \<open>NotFoundError(key)\<close>, and \<open>setValue\<close> returns \<open>None\<close> (its
  update of \<open>values\<close> is left out). \<open>body_response\<close> takes what a handler returns for the
  body of a response.
\<close>

definition NotFoundError_field :: field_spec where
  "NotFoundError_field = \<lparr>fs_name = ''notFound'', fs_surface = ''NotFoundError''\<rparr>"

definition getValue_spec :: function_spec where
  "getValue_spec =
     \<lparr>fn_name = ''getValue'', fn_oneway = False,
      fn_surface =
        \<lparr>sf_name = ''getValue'',
         sf_request = \<lparr>cls_name = ''getValue_request'',
                       type_spec = \<lparr>exception_specs = [], return_spec = None\<rparr>\<rparr>,
         sf_response = \<lparr>cls_name = ''getValue_response'',
                        type_spec = \<lparr>exception_specs = [NotFoundError_field],
                                     return_spec = Some ''string''\<rparr>\<rparr>\<rparr>\<rparr>"

definition setValue_spec :: function_spec where
  "setValue_spec =
     \<lparr>fn_name = ''setValue'', fn_oneway = False,
      fn_surface =
        \<lparr>sf_name = ''setValue'',
         sf_request = \<lparr>cls_name = ''setValue_request'',
                       type_spec = \<lparr>exception_specs = [], return_spec = None\<rparr>\<rparr>,
         sf_response = \<lparr>cls_name = ''setValue_response'',
                        type_spec = \<lparr>exception_specs = [], return_spec = None\<rparr>\<rparr>\<rparr>\<rparr>"

definition notify_spec :: function_spec where
  "notify_spec =
     \<lparr>fn_name = ''notify'', fn_oneway = True,
      fn_surface =
        \<lparr>sf_name = ''notify'',
         sf_request = \<lparr>cls_name = ''notify_request'',
                       type_spec = \<lparr>exception_specs = [], return_spec = None\<rparr>\<rparr>,
         sf_response = \<lparr>cls_name = ''notify_response'',
                        type_spec = \<lparr>exception_specs = [], return_spec = None\<rparr>\<rparr>\<rparr>\<rparr>"

definition KeyValue_cls :: service_class where
  "KeyValue_cls =
     \<lparr>cls_service_spec =
        \<lparr>ss_name = ''KeyValue'', ss_functions = [getValue_spec, setValue_spec, notify_spec]\<rparr>\<rparr>"

definition KeyValue_module :: TChannelThriftModule where
  "KeyValue_module =
     \<lparr>tm_service = Some ''thrift-benchmark'', tm_module = \<lparr>services = [KeyValue_cls]\<rparr>,
      tm_hostport = None, tm_services = [(''KeyValue'', KeyValue_cls)]\<rparr>"

definition KeyValue :: Service where
  "KeyValue =
     \<lparr>svc_module = KeyValue_module, svc_cls = KeyValue_cls,
      svc_spec = cls_service_spec KeyValue_cls\<rparr>"

text \<open>A compiler that knows the one file \<open>keyvalue.thrift\<close>.\<close>

definition compile_keyvalue :: "string option \<Rightarrow> string option \<Rightarrow> pyexc + thriftrw_module" where
  "compile_keyvalue path module_name =
     (if path = Some ''keyvalue.thrift'' then Inr \<lparr>services = [KeyValue_cls]\<rparr>
      else Inl (PyExc [''IOError''] ''no such file''))"

definition getValue :: "(string, string option) handler" where
  "getValue =
     \<lparr>h_name = ''getValue'',
      h_call = (\<lambda>key. if key = ''hello'' then Inr (Some ''world'')
                      else Inl (PyExc [''NotFoundError''] key))\<rparr>"

definition setValue :: "(string, string option) handler" where
  "setValue = \<lparr>h_name = ''setValue'', h_call = (\<lambda>key. Inr None)\<rparr>"

definition body_response :: "string option \<Rightarrow> (unit option, string option) Response" where
  "body_response mixed = \<lparr>resp_status = OK, resp_headers = None, resp_body = mixed\<rparr>"

definition getValue_request :: "string ThriftRWRequest" where
  "getValue_request =
     ThriftRWRequest_init (svc_module KeyValue) (Some ''thrift-benchmark'')
       ''KeyValue::getValue'' (sf_response (fn_surface getValue_spec)) ''hello'' None"

definition setValue_request :: "string ThriftRWRequest" where
  "setValue_request =
     ThriftRWRequest_init (svc_module KeyValue) (Some ''thrift-benchmark'')
       ''KeyValue::setValue'' (sf_response (fn_surface setValue_spec)) ''hello'' None"

section \<open>Example: serializers and transports that record their calls\<close>

text \<open>A serializer of optional strings: \<open>None\<close> is written \<open>null\<close>, a string in quotes.\<close>

definition quote_json :: "string option \<Rightarrow> pyexc + string" where
  "quote_json obj = (case obj of None \<Rightarrow> Inr ''null'' | Some s \<Rightarrow> Inr (CHR 0x22 # s @ [CHR 0x22]))"

definition unquote_json :: "string \<Rightarrow> pyexc + string option" where
  "unquote_json w =
     (if w = ''null'' then Inr None
      else if 2 \<le> length w \<and> hd w = CHR 0x22 \<and> last w = CHR 0x22 then Inr (Some (butlast (tl w)))
      else Inl (PyExc [''ValueError''] w))"

definition quote_serializer :: "(string option, string) JsonSerializer" where
  "quote_serializer =
     \<lparr>serialize_header = quote_json, serialize_body = quote_json,
      deserialize_header = unquote_json, deserialize_body = unquote_json\<rparr>"






definition recording_echo ::
  "'w call_request list \<Rightarrow> 'w call_request \<Rightarrow>
   (pyexc + ('w, 'w) Response) \<times> 'w call_request list" where
  "recording_echo calls request =
     (Inr \<lparr>resp_status = OK, resp_headers = cr_arg2 request, resp_body = cr_arg3 request\<rparr>,
      calls @ [request])"

definition recording_register ::
  "(string, string, string) register_request list \<Rightarrow> (string, string, string) register_request \<Rightarrow>
   (pyexc + unit) \<times> (string, string, string) register_request list" where
  "recording_register registrations request = (Inr (), registrations @ [request])"

section \<open>Properties of the Thrift scheme\<close>

lemmas example_defs =
  NotFoundError_field_def getValue_spec_def setValue_spec_def notify_spec_def KeyValue_cls_def
  KeyValue_def KeyValue_module_def getValue_def setValue_def body_response_def
  Function_init_def getValue_request_def setValue_request_def
  ThriftRWRequest_init_def ThriftRWSerializer_init_def

lemma isinstance_Exception [simp]: "isinstance e ''Exception''"
  by (simp add: isinstance_def exc_mro_def)




lemma first_exception_None:
  "(\<forall>s \<in> set specs. exc_field body (fs_name s) = None) \<Longrightarrow> first_exception body specs = None"
  by (induction specs) simp_all

lemma first_exception_append:
  "(\<forall>p \<in> set pre. exc_field body (fs_name p) = None) \<Longrightarrow>
   first_exception body (pre @ rest) = first_exception body rest"
  by (induction pre) simp_all

lemma first_set_field:
  "s \<in> set specs \<Longrightarrow> exc_field body (fs_name s) \<noteq> None \<Longrightarrow>
   \<exists>pre s' post exc. specs = pre @ s' # post \<and>
     (\<forall>p \<in> set pre. exc_field body (fs_name p) = None) \<and>
     exc_field body (fs_name s') = Some exc"
proof (induction specs)
  case Nil
  then show ?case by simp
next
  case (Cons a specs)
  show ?case
  proof (cases "exc_field body (fs_name a)")
    case (Some exc)
    then have "a # specs = [] @ a # specs \<and> (\<forall>p \<in> set []. exc_field body (fs_name p) = None)
      \<and> exc_field body (fs_name a) = Some exc" by simp
    then show ?thesis by blast
  next
    case None
    with Cons.prems have "s \<in> set specs" by auto
    from Cons.IH [OF this Cons.prems(2)] obtain pre s' post exc where
      h: "specs = pre @ s' # post" "\<forall>p \<in> set pre. exc_field body (fs_name p) = None"
         "exc_field body (fs_name s') = Some exc" by blast
    from h None have "a # specs = (a # pre) @ s' # post \<and>
       (\<forall>p \<in> set (a # pre). exc_field body (fs_name p) = None) \<and>
       exc_field body (fs_name s') = Some exc" by simp
    then show ?thesis by blast
  qed
qed

text \<open>
  C2. If some declared exception field of the response union holds a value, \<open>read_body\<close>
  raises the value of the first such field in declaration order, whatever \<open>success\<close>
  holds.
\<close>

theorem read_body_raises_first_exception:
  assumes "s \<in> set (exception_specs (type_spec (rq_result_type self)))"
      and "exc_field body (fs_name s) \<noteq> None"
  shows "\<exists>pre s' post exc.
           exception_specs (type_spec (rq_result_type self)) = pre @ s' # post \<and>
           (\<forall>p \<in> set pre. exc_field body (fs_name p) = None) \<and>
           exc_field body (fs_name s') = Some exc \<and>
           read_body self body = Inl (Raised exc)"
proof -
  from first_set_field [OF assms] obtain pre s' post exc where
    h: "exception_specs (type_spec (rq_result_type self)) = pre @ s' # post"
       "\<forall>p \<in> set pre. exc_field body (fs_name p) = None"
       "exc_field body (fs_name s') = Some exc" by blast
  have "first_exception body (pre @ s' # post) = Some exc"
    using h(2,3) by (simp add: first_exception_append)
  then have "read_body self body = Inl (Raised exc)"
    using h(1) by (simp add: read_body_def)
  with h show ?thesis by blast
qed

theorem read_body_raises_first_exception_witness:
  "NotFoundError_field \<in> set (exception_specs (type_spec (rq_result_type getValue_request))) \<and>
   read_body getValue_request
     \<lparr>result_cls = sf_response (fn_surface getValue_spec),
      exc_field = [''notFound'' \<mapsto> PyExc [''NotFoundError''] ''bye''],
      success = Some ''world''\<rparr> = Inl (Raised (PyExc [''NotFoundError''] ''bye''))"
proof -
  define body :: "string result_union" where
    "body = \<lparr>result_cls = sf_response (fn_surface getValue_spec),
             exc_field = [''notFound'' \<mapsto> PyExc [''NotFoundError''] ''bye''],
             success = Some ''world''\<rparr>"
  have declared:
    "NotFoundError_field \<in> set (exception_specs (type_spec (rq_result_type getValue_request)))"
    by (simp add: example_defs)
  have given: "exc_field body (fs_name NotFoundError_field) \<noteq> None"
    by (simp add: body_def NotFoundError_field_def)
  from read_body_raises_first_exception [OF declared given] obtain s' :: field_spec and exc where
    field: "exc_field body (fs_name s') = Some exc" and
    raised: "read_body getValue_request body = Inl (Raised exc)"
    by blast
  from field have "exc = PyExc [''NotFoundError''] ''bye''"
    by (simp add: body_def split: if_splits)
  with raised declared show ?thesis by (simp add: body_def)
qed

text \<open>
  C3. For a function that returns a value, \<open>read_body\<close> raises \<open>ValueExpectedError\<close> on a
  response with no declared exception set and no \<open>success\<close>, and the wrapped handler
  raises (the \<open>assert\<close> fails) instead of returning a response when the user handler
  returns no value; for a void function, \<open>read_body\<close> returns \<open>None\<close> when no declared
  exception is set.
\<close>

theorem value_expected:
  "(return_spec (type_spec (rq_result_type self)) \<noteq> None \<and>
    (\<forall>s \<in> set (exception_specs (type_spec (rq_result_type self))).
        exc_field body (fs_name s) = None) \<and>
    success body = None \<longrightarrow>
    read_body self body =
      Inl (ValueExpectedError (value_expected_message (rq_endpoint self)))) \<and>
   (return_spec (type_spec (f_response_cls function)) \<noteq> None \<and>
    h_call handler request = Inr mixed \<and>
    resp_body (response_from_mixed mixed) = None \<longrightarrow>
    w_call (build_handler response_from_mixed function handler) request =
      Inl (AssertionError (value_expected_message (Function_endpoint function)))) \<and>
   (return_spec (type_spec (rq_result_type self)) = None \<and>
    (\<forall>s \<in> set (exception_specs (type_spec (rq_result_type self))).
        exc_field body (fs_name s) = None) \<longrightarrow>
    read_body self body = Inr None)"
  by (auto simp: read_body_def first_exception_None build_handler_def handle_def Let_def)

theorem value_expected_witness:
  "return_spec (type_spec (rq_result_type getValue_request)) \<noteq> None \<and>
   read_body getValue_request
       (response_cls_new (sf_response (fn_surface getValue_spec)) :: string result_union) =
     Inl (ValueExpectedError (value_expected_message ''KeyValue::getValue'')) \<and>
   h_call setValue ''hello'' = Inr None \<and>
   w_call (build_handler body_response (Function_init getValue_spec KeyValue) setValue) ''hello'' =
     Inl (AssertionError (value_expected_message ''KeyValue::getValue'')) \<and>
   return_spec (type_spec (rq_result_type setValue_request)) = None \<and>
   read_body setValue_request
       (response_cls_new (sf_response (fn_surface setValue_spec)) :: string result_union) =
     Inr None"
  using value_expected [of getValue_request
      "response_cls_new (sf_response (fn_surface getValue_spec)) :: string result_union"
      "Function_init getValue_spec KeyValue" setValue "''hello''" None body_response]
    value_expected [of setValue_request
      "response_cls_new (sf_response (fn_surface setValue_spec)) :: string result_union"
      "Function_init getValue_spec KeyValue" setValue "''hello''" None body_response]
  by (simp add: example_defs response_cls_new_def Function_endpoint_def service_name_def)

text \<open>
  C4. Calling the \<open>Function\<close> object of a oneway function raises
  \<open>OneWayNotSupportedError\<close>, whatever the request constructor and the module are, so no
  request is built; registering a handler for a oneway function raises (the \<open>assert\<close>
  fails) and leaves the dispatcher as it was, at once or when the deferred decorator is
  applied.
\<close>

theorem oneway_rejected:
  "(Function_oneway function \<longrightarrow>
      Function_call request_cls_new function args =
        Inl (OneWayNotSupportedError
               ''TChannel+Thrift does not currently support oneway procedures.'')) \<and>
   (service_getattr service (method_name method handler) = Some (AttrFunction function) \<and>
    Function_oneway function \<longrightarrow>
      register response_from_mixed dispatcher service (Some handler) method =
        Registered (Inl (AssertionError []), dispatcher) \<and>
      (\<exists>g. register response_from_mixed dispatcher service None method = Deferred g \<and>
           g handler dispatcher = (Inl (AssertionError []), dispatcher)))"
  by (simp add: Function_call_def register_def decorator_def Let_def)

theorem oneway_rejected_witness:
  "Function_oneway (Function_init notify_spec KeyValue) \<and>
   Function_call (\<lambda>cls args. Inr args) (Function_init notify_spec KeyValue) ''hello'' =
     (Inl (OneWayNotSupportedError
             ''TChannel+Thrift does not currently support oneway procedures.'')
        :: error + string ThriftRWRequest) \<and>
   service_getattr KeyValue (method_name (Some ''notify'') setValue) =
     Some (AttrFunction (Function_init notify_spec KeyValue)) \<and>
   register body_response Map.empty KeyValue (Some setValue) (Some ''notify'') =
     Registered (Inl (AssertionError []), Map.empty)"
  using oneway_rejected [of "Function_init notify_spec KeyValue" "\<lambda>cls args. Inr args"
      "''hello''" KeyValue "Some ''notify''" setValue body_response Map.empty]
  by (simp add: example_defs Function_oneway_def service_getattr_def method_name_def)

text \<open>
  What the constructors do with the names they cannot keep apart: a function called
  \<open>name\<close> makes \<open>Service\<close>, and with it the module, raise; a function called \<open>_spec\<close> and a
  service called \<open>hostport\<close> replace the attribute of that name.
\<close>

lemma Service_init_name_raises:
  "Service_init \<lparr>cls_service_spec = \<lparr>ss_name = ''S'', ss_functions =
      [setValue_spec\<lparr>fn_name := ''name''\<rparr>]\<rparr>\<rparr> KeyValue_module =
     Raises (AttributeError ''name'')"
  by (simp add: Service_init_def)

lemma Service_init_spec_shadowed:
  "Service_init \<lparr>cls_service_spec = \<lparr>ss_name = ''S'', ss_functions =
      [setValue_spec\<lparr>fn_name := ''_spec''\<rparr>]\<rparr>\<rparr> KeyValue_module = Shadowed ''_spec''"
  by (simp add: Service_init_def object_refuses_def)

lemma TChannelThriftModule_init_hostport_shadowed:
  "TChannelThriftModule_init (\<lambda>attr_name. None) (Some ''svc'')
     \<lparr>services = [\<lparr>cls_service_spec = \<lparr>ss_name = ''hostport'', ss_functions = []\<rparr>\<rparr>]\<rparr> None =
     Shadowed ''hostport''"
  by (simp add: TChannelThriftModule_init_def Service_init_def)

lemma TChannelThriftModule_init_name_raises:
  "TChannelThriftModule_init (\<lambda>attr_name. None) (Some ''svc'')
     \<lparr>services = [\<lparr>cls_service_spec = \<lparr>ss_name = ''S'', ss_functions =
        [setValue_spec\<lparr>fn_name := ''name''\<rparr>]\<rparr>\<rparr>]\<rparr> None =
     Raises (AttributeError ''name'')"
  by (simp add: TChannelThriftModule_init_def Service_init_def)










lemma register_deferred:
  "\<exists>g. register response_from_mixed dispatcher service None method = Deferred g \<and>
       (\<forall>handler dispatcher'.
          g handler dispatcher' = decorator response_from_mixed dispatcher' service method handler)"
  by (simp add: register_def)






lemma TChannelThriftModule_init_built:
  assumes "TChannelThriftModule_init module_refuses service module hostport = Built m"
  shows "tm_service m = service \<and> tm_module m = module \<and> tm_hostport m = hostport"
  using assms
  by (auto simp: TChannelThriftModule_init_def Let_def split: sum.splits option.splits prod.splits)

text \<open>
  C9. \<open>load\<close> hands the compiler its first argument as the path and the module constructor
  its second as the service name when the first argument ends with \<open>.thrift\<close>; otherwise it
  hands the compiler the second argument as the path and the constructor the first as the
  service name. The result is that of the constructor, and a module that is built holds
  that service name and the module compiled from that path.
\<close>

theorem load_swaps:
  "load thriftrw_load module_refuses path service hostport module_name =
     (if endswith path ''.thrift''
      then (case thriftrw_load (Some path) module_name of
              Inl e \<Rightarrow> Raises (Raised e)
            | Inr module \<Rightarrow> TChannelThriftModule_init module_refuses service module hostport)
      else (case thriftrw_load service module_name of
              Inl e \<Rightarrow> Raises (Raised e)
            | Inr module \<Rightarrow>
                TChannelThriftModule_init module_refuses (Some path) module hostport)) \<and>
   (\<forall>m. load thriftrw_load module_refuses path service hostport module_name = Built m \<longrightarrow>
        tm_service m = (if endswith path ''.thrift'' then service else Some path) \<and>
        thriftrw_load (if endswith path ''.thrift'' then Some path else service) module_name =
          Inr (tm_module m))"
proof (rule conjI)
  show "load thriftrw_load module_refuses path service hostport module_name =
     (if endswith path ''.thrift''
      then (case thriftrw_load (Some path) module_name of
              Inl e \<Rightarrow> Raises (Raised e)
            | Inr module \<Rightarrow> TChannelThriftModule_init module_refuses service module hostport)
      else (case thriftrw_load service module_name of
              Inl e \<Rightarrow> Raises (Raised e)
            | Inr module \<Rightarrow>
                TChannelThriftModule_init module_refuses (Some path) module hostport))"
    by (simp add: load_def)
  show "\<forall>m. load thriftrw_load module_refuses path service hostport module_name = Built m \<longrightarrow>
        tm_service m = (if endswith path ''.thrift'' then service else Some path) \<and>
        thriftrw_load (if endswith path ''.thrift'' then Some path else service) module_name =
          Inr (tm_module m)"
    by (auto simp: load_def split: sum.splits if_splits dest: TChannelThriftModule_init_built)
qed

theorem load_swaps_witness:
  "load compile_keyvalue (\<lambda>attr_name. None) ''thrift-benchmark'' (Some ''keyvalue.thrift'')
       None None = Built KeyValue_module \<and>
   tm_service KeyValue_module = Some ''thrift-benchmark'' \<and>
   compile_keyvalue (Some ''keyvalue.thrift'') None = Inr (tm_module KeyValue_module)"
proof -
  have built: "load compile_keyvalue (\<lambda>attr_name. None) ''thrift-benchmark''
      (Some ''keyvalue.thrift'') None None = Built KeyValue_module"
    by (simp add: load_def endswith_def compile_keyvalue_def TChannelThriftModule_init_def
        Service_init_def object_refuses_def KeyValue_module_def KeyValue_cls_def
        getValue_spec_def setValue_spec_def notify_spec_def)
  have ends: "\<not> endswith ''thrift-benchmark'' ''.thrift''"
    by (simp add: endswith_def)
  from load_swaps [of compile_keyvalue "\<lambda>attr_name. None" "''thrift-benchmark''"
      "Some ''keyvalue.thrift''" None None]
  have "\<forall>m. load compile_keyvalue (\<lambda>attr_name. None) ''thrift-benchmark''
               (Some ''keyvalue.thrift'') None None = Built m \<longrightarrow>
        tm_service m = (if endswith ''thrift-benchmark'' ''.thrift'' then Some ''keyvalue.thrift''
                        else Some ''thrift-benchmark'') \<and>
        compile_keyvalue (if endswith ''thrift-benchmark'' ''.thrift'' then Some ''thrift-benchmark''
                          else Some ''keyvalue.thrift'') None = Inr (tm_module m)"
    by (rule conjunct2)
  then have "load compile_keyvalue (\<lambda>attr_name. None) ''thrift-benchmark''
               (Some ''keyvalue.thrift'') None None = Built KeyValue_module \<longrightarrow>
        tm_service KeyValue_module =
          (if endswith ''thrift-benchmark'' ''.thrift'' then Some ''keyvalue.thrift''
           else Some ''thrift-benchmark'') \<and>
        compile_keyvalue (if endswith ''thrift-benchmark'' ''.thrift'' then Some ''thrift-benchmark''
                          else Some ''keyvalue.thrift'') None = Inr (tm_module KeyValue_module)"
    by (rule spec)
  from this built have
       "tm_service KeyValue_module =
          (if endswith ''thrift-benchmark'' ''.thrift'' then Some ''keyvalue.thrift''
           else Some ''thrift-benchmark'') \<and>
        compile_keyvalue (if endswith ''thrift-benchmark'' ''.thrift'' then Some ''thrift-benchmark''
                          else Some ''keyvalue.thrift'') None = Inr (tm_module KeyValue_module)"
    by (rule mp)
  with ends built show ?thesis by simp
qed

section \<open>Properties of the frame codec\<close>

lemma u16_roundtrip: "n < 65536 \<Longrightarrow> u16_of (of_nat (n div 256)) (of_nat n) = n"
  by (simp add: u16_of_def unat_of_nat) 

lemma u32_roundtrip:
  "u32_of (ucast (drop_bit 24 w)) (ucast (drop_bit 16 w)) (ucast (drop_bit 8 w)) (ucast w) = w"
  unfolding u32_of_def
  apply (rule bit_word_eqI)
  subgoal for n
    by (cases "24 \<le> n"; cases "16 \<le> n"; cases "8 \<le> n") (auto simp: bit_simps)
  done

lemma take_exact: "length xs = n \<Longrightarrow> take n (xs @ ys) = xs"
  by simp

lemma drop_exact: "length xs = n \<Longrightarrow> drop n (xs @ ys) = ys"
  by simp

lemma type_roundtrip: "type_of_code (type_code t) = Some t"
  by (cases t) (simp_all add: type_of_code_def)

lemma payload_length: "length (payload_bytes p) \<le> 65519"
  using payload_bytes [of p] by simp

text \<open>
  C8. Every frame has a size between 16 and 65535 bytes, its encoding has that length, and
  reading an encoded frame from a stream gives the frame back, of whatever type, with the
  rest of the stream.
\<close>

theorem frame_roundtrip:
  "16 \<le> frame_size F \<and> frame_size F \<le> 65535 \<and> length (encode F) = frame_size F \<and>
   decode (encode F @ stream) = Inr (F, stream)"
proof -
  let ?p = "payload_bytes (frame_payload F)"
  define rest where
    "rest = [type_code (frame_type F), 0] @ u32_bytes (frame_id F) @ replicate 8 0 @ ?p"
  have len: "length ?p \<le> 65519" by (rule payload_length)
  have size: "frame_size F = 16 + length ?p" by (simp add: frame_size_def)
  have bounds: "16 \<le> frame_size F" "frame_size F \<le> 65535" using len size by simp_all
  have rest_len: "length rest = frame_size F - 2"
    by (simp add: rest_def u32_bytes_def size)
  have enc: "encode F = of_nat (frame_size F div 256) # of_nat (frame_size F) # rest"
    by (simp add: encode_def u16_bytes_def rest_def)
  have enc_len: "length (encode F) = frame_size F"
    using bounds by (simp add: enc rest_len)
  have u16: "u16_of (of_nat (frame_size F div 256)) (of_nat (frame_size F)) = frame_size F"
    using bounds by (simp add: u16_roundtrip)
  have fields: "rest ! 0 = type_code (frame_type F)"
    "u32_of (rest ! 2) (rest ! 3) (rest ! 4) (rest ! 5) = frame_id F"
    "drop 14 rest = ?p"
    by (simp_all add: rest_def u32_bytes_def u32_roundtrip)
  have "decode (encode F @ stream) =
          Inr (\<lparr>frame_type = frame_type F, frame_id = frame_id F,
                frame_payload = frame_payload F\<rparr>, stream)"
    using bounds
    by (simp add: enc decode_def u16 Let_def rest_len take_exact [OF rest_len]
        drop_exact [OF rest_len] fields type_roundtrip payload_bytes_inverse)
  then show ?thesis using bounds enc_len by simp
qed

section \<open>Properties of the JSON scheme\<close>

text \<open>
  C5. When the two serializations return, the JSON scheme's call invokes the transport
  once, on the \<open>TChannel\<close> state it was given, with scheme \<open>json\<close>, the service, arg1 the
  endpoint, arg2 the serialized headers, arg3 the serialized body and the six options as
  they were passed. An exception of the transport is raised on; a response is returned
  with its status kept and its headers and body replaced by what
  \<open>deserialize_header\<close> and \<open>deserialize_body\<close> give for them.
\<close>

theorem json_call_arguments:
  assumes "serialize_header serializer headers = Inr arg2"
      and "serialize_body serializer body = Inr arg3"
  shows "JsonArgScheme_call serializer tchannel_call tchannel service endpoint body headers
           timeout retry_on retry_limit hostport shard_key trace =
    (case tchannel_call tchannel
            \<lparr>cr_scheme = ''json'', cr_service = service, cr_arg1 = endpoint,
             cr_arg2 = arg2, cr_arg3 = arg3, cr_timeout = timeout,
             cr_retry_on = retry_on, cr_retry_limit = retry_limit,
             cr_hostport = hostport, cr_shard_key = shard_key, cr_trace = trace\<rparr> of
       (Inl e, tchannel') \<Rightarrow> (Inl (Raised e), tchannel')
     | (Inr response, tchannel') \<Rightarrow>
         (case (deserialize_header serializer (resp_headers response),
                deserialize_body serializer (resp_body response)) of
            (Inl e, _) \<Rightarrow> (Inl (Raised e), tchannel')
          | (Inr h, Inl e) \<Rightarrow> (Inl (Raised e), tchannel')
          | (Inr h, Inr b) \<Rightarrow>
              (Inr \<lparr>resp_status = resp_status response, resp_headers = h, resp_body = b\<rparr>,
               tchannel')))"
  using assms
  by (simp add: JsonArgScheme_call_def JSON_def split: prod.splits sum.splits)

theorem json_call_arguments_witness:
  "serialize_header quote_serializer (Some ''h'') = Inr ''\"h\"'' \<and>
   serialize_body quote_serializer None = Inr ''null'' \<and>
   JsonArgScheme_call quote_serializer recording_echo [] ''svc'' ''echo'' None (Some ''h'')
       (Some 50) None (Some 4) (Some ''localhost:12345'') None (Some True) =
     (Inr \<lparr>resp_status = 0, resp_headers = Some ''h'', resp_body = None\<rparr>,
      [\<lparr>cr_scheme = ''json'', cr_service = ''svc'', cr_arg1 = ''echo'',
        cr_arg2 = ''\"h\"'', cr_arg3 = ''null'', cr_timeout = Some 50,
        cr_retry_on = None, cr_retry_limit = Some 4,
        cr_hostport = Some ''localhost:12345'', cr_shard_key = None, cr_trace = Some True\<rparr>])"
proof -
  have h: "serialize_header quote_serializer (Some ''h'') = Inr ''\"h\"''"
    by (simp add: quote_serializer_def quote_json_def)
  have b: "serialize_body quote_serializer None = Inr ''null''"
    by (simp add: quote_serializer_def quote_json_def)
  show ?thesis
    using h b json_call_arguments [OF h b, of recording_echo "[]" "''svc''" "''echo''"
        "Some 50" None "Some 4" "Some ''localhost:12345''" None "Some True"]
    by (simp add: recording_echo_def quote_serializer_def unquote_json_def OK_def)
qed




text \<open>
  C10 (amended). When no further keyword argument is called \<open>self\<close>, \<open>endpoint\<close>, \<open>scheme\<close> or
  \<open>handler\<close>, the JSON scheme's \<open>register\<close> forwards to the \<open>register\<close> of the \<open>TChannel\<close> with
  scheme \<open>json\<close> and the keyword arguments as given: a callable argument goes as the
  handler with endpoint \<open>None\<close>, any other argument as the endpoint with handler \<open>None\<close>.
  When one of them has such a name, \<open>TypeError\<close> is raised and nothing is forwarded.
\<close>

theorem json_register_forwards:
  "(set (map fst kwargs) \<inter> {''self'', ''endpoint'', ''scheme'', ''handler''} = {} \<longrightarrow>
      JsonArgScheme_register tchannel_register tchannel endpoint kwargs =
        (case tchannel_register tchannel
                \<lparr>rr_scheme = ''json'',
                 rr_endpoint = (case endpoint of Callable f \<Rightarrow> None | NotCallable e \<Rightarrow> Some e),
                 rr_handler = (case endpoint of Callable f \<Rightarrow> Some f | NotCallable e \<Rightarrow> None),
                 rr_kwargs = kwargs\<rparr> of
           (Inl e, tchannel') \<Rightarrow> (Inl (Raised e), tchannel')
         | (Inr r, tchannel') \<Rightarrow> (Inr r, tchannel'))) \<and>
   (set (map fst kwargs) \<inter> {''self'', ''endpoint'', ''scheme'', ''handler''} \<noteq> {} \<longrightarrow>
      (\<exists>msg. JsonArgScheme_register tchannel_register tchannel endpoint kwargs =
               (Inl (TypeError msg), tchannel)))"
proof (intro conjI impI)
  assume "set (map fst kwargs) \<inter> {''self'', ''endpoint'', ''scheme'', ''handler''} = {}"
  then have "find (\<lambda>k. k \<in> set [''self'', ''endpoint'', ''scheme'', ''handler''])
               (map fst kwargs) = None"
    unfolding find_None_iff by force
  then show "JsonArgScheme_register tchannel_register tchannel endpoint kwargs =
        (case tchannel_register tchannel
                \<lparr>rr_scheme = ''json'',
                 rr_endpoint = (case endpoint of Callable f \<Rightarrow> None | NotCallable e \<Rightarrow> Some e),
                 rr_handler = (case endpoint of Callable f \<Rightarrow> Some f | NotCallable e \<Rightarrow> None),
                 rr_kwargs = kwargs\<rparr> of
           (Inl e, tchannel') \<Rightarrow> (Inl (Raised e), tchannel')
         | (Inr r, tchannel') \<Rightarrow> (Inr r, tchannel'))"
    by (cases endpoint) (simp_all add: JsonArgScheme_register_def JSON_def split: prod.splits sum.splits)
next
  assume "set (map fst kwargs) \<inter> {''self'', ''endpoint'', ''scheme'', ''handler''} \<noteq> {}"
  then have "find (\<lambda>k. k \<in> set [''self'', ''endpoint'', ''scheme'', ''handler''])
               (map fst kwargs) \<noteq> None"
    unfolding find_None_iff by force
  then obtain k where
    "find (\<lambda>k. k \<in> set [''self'', ''endpoint'', ''scheme'', ''handler'']) (map fst kwargs) = Some k"
    by blast
  then show "\<exists>msg. JsonArgScheme_register tchannel_register tchannel endpoint kwargs =
               (Inl (TypeError msg), tchannel)"
    by (cases endpoint) (simp_all add: JsonArgScheme_register_def)
qed

theorem json_register_forwards_witness:
  "set (map fst [(''method'', ''GET'')]) \<inter> {''self'', ''endpoint'', ''scheme'', ''handler''} = {} \<and>
   JsonArgScheme_register recording_register [] (Callable ''echo_handler'') [(''method'', ''GET'')] =
     (Inr (), [\<lparr>rr_scheme = ''json'', rr_endpoint = None, rr_handler = Some ''echo_handler'',
               rr_kwargs = [(''method'', ''GET'')]\<rparr>]) \<and>
   set (map fst [(''self'', ''x'')]) \<inter> {''self'', ''endpoint'', ''scheme'', ''handler''} \<noteq> {} \<and>
   (\<exists>msg. JsonArgScheme_register recording_register [] (NotCallable ''echo'') [(''self'', ''x'')] =
      (Inl (TypeError msg), []))"
  using json_register_forwards [of "[(''method'', ''GET'')]" recording_register "[]"
      "Callable ''echo_handler''"]
    json_register_forwards [of "[(''self'', ''x'')]" recording_register "[]"
      "NotCallable ''echo''"]
  by (simp add: recording_register_def)

text \<open>
  C10 (as stated). Forwarding on every invocation fails for
  \<open>register('echo', handler='f')\<close>: the inner call would be given \<open>handler\<close> twice, so
  \<open>TypeError\<close> is raised and the recording \<open>register\<close> is never entered.
\<close>

theorem json_register_counterexample:
  "JsonArgScheme_register recording_register [] (NotCallable ''echo'') [(''handler'', ''f'')] =
     (Inl (TypeError ''register() got multiple values for keyword argument handler''), []) \<and>
   JsonArgScheme_register recording_register [] (NotCallable ''echo'') [(''handler'', ''f'')] \<noteq>
     (case recording_register []
             \<lparr>rr_scheme = ''json'', rr_endpoint = Some ''echo'', rr_handler = None,
              rr_kwargs = [(''handler'', ''f'')]\<rparr> of
        (Inl e, tchannel') \<Rightarrow> (Inl (Raised e), tchannel')
      | (Inr r, tchannel') \<Rightarrow> (Inr r, tchannel'))"
  by (simp add: JsonArgScheme_register_def recording_register_def)

end
